theory Spec2Isabelle
  imports Main "HOL-Library.Word"
begin

section \<open>Data model of dwarf_query.h\<close>

text \<open>
  The enumeration \<open>DataType\<close> of the header. It is unscoped and has no fixed underlying
  type, so its values are those of the smallest bit-field that holds its enumerators 0
  to 9: the sixteen values 0 to 15. A descriptor member of this type can hold any of
  them, so the type is the 4-bit word and the ten enumerators are constants of it, in
  the order of declaration. The enumerators \<open>CHAR\<close> and \<open>INT\<close> are written \<open>CHAR_TYPE\<close> and
  \<open>INT_TYPE\<close>: the two names are taken by the notation for the characteristic of a
  ring and for an indexed intersection.
\<close>

type_synonym DataType = "4 word"

definition VOID :: DataType where
  "VOID = 0"

definition BOOL :: DataType where
  "BOOL = 1"

definition CHAR_TYPE :: DataType where
  "CHAR_TYPE = 2"

definition INT_TYPE :: DataType where
  "INT_TYPE = 3"

definition FLOAT :: DataType where
  "FLOAT = 4"

definition STRUCT :: DataType where
  "STRUCT = 5"

definition FUNC :: DataType where
  "FUNC = 6"

definition ARRAY :: DataType where
  "ARRAY = 7"

definition UNION :: DataType where
  "UNION = 8"

definition ENUM :: DataType where
  "ENUM = 9"

text \<open>
  The class \<open>ReadableDataType\<close>. Its \<open>unsigned\<close> members are 32-bit words, its
  \<open>std::string\<close> members are strings.
\<close>

record ReadableDataType =
  name :: string
  size_bytes :: "32 word"
  offset_bytes :: "32 word"
  type :: DataType
  is_ptr :: bool
  is_double_ptr :: bool
  is_le :: bool
  is_signed :: bool
  is_valid :: bool
  ptr_trgt_name :: string
  arr_member_name :: string
  arr_member_type :: DataType
  arr_member_size_bytes :: "32 word"

subsection \<open>Constructors\<close>

text \<open>
  The pointer constructor has a member initialiser for every member but \<open>is_valid\<close>,
  which it leaves default-initialised: for a \<open>bool\<close> that is an indeterminate value.
  The model takes that value as the argument \<open>indet\<close> (what the storage of the object
  happens to hold). The other two constructors delegate, as in the header.
\<close>

definition ReadableDataType_ptr :: "bool \<Rightarrow> string \<Rightarrow> string \<Rightarrow> ReadableDataType" where
  "ReadableDataType_ptr indet ptr_name dst_name =
     \<lparr> name = ptr_name, size_bytes = 0, offset_bytes = 0, type = VOID,
       is_ptr = False, is_double_ptr = False, is_le = True, is_signed = False,
       is_valid = indet,
       ptr_trgt_name = dst_name,
       arr_member_name = ''{none}'', arr_member_type = VOID, arr_member_size_bytes = 0 \<rparr>"

definition ReadableDataType_named :: "bool \<Rightarrow> string \<Rightarrow> ReadableDataType" where
  "ReadableDataType_named indet type_name = ReadableDataType_ptr indet type_name ''{none}''"

definition ReadableDataType_noargs :: "bool \<Rightarrow> ReadableDataType" where
  "ReadableDataType_noargs indet = ReadableDataType_named indet ''{unknown}''"

subsection \<open>Array size\<close>

text \<open>
  The outcomes of \<open>get_arr_size\<close> other than a returned \<open>int\<close>: the \<open>assert\<close> of the
  function fails (the header is modelled as built with assertions on), or the function
  divides by zero, which is undefined behaviour in C++ and is kept apart from the
  assertion failure.
\<close>

datatype fault = AssertionFailure | DivisionByZero

text \<open>
  \<open>get_arr_size\<close>. The arithmetic is on \<open>unsigned\<close>; the quotient is converted to the
  return type \<open>int\<close>, a 32-bit two's complement value (\<open>sint\<close>). The remainder is
  computed first, inside the \<open>assert\<close>, so a zero element size is met there.
\<close>

definition get_arr_size :: "ReadableDataType \<Rightarrow> fault + int" where
  "get_arr_size rdt =
     (if type rdt = ARRAY then
        (if size_bytes rdt \<noteq> 0 then
           (if arr_member_size_bytes rdt = 0 then Inl DivisionByZero
            else if size_bytes rdt mod arr_member_size_bytes rdt \<noteq> 0 then Inl AssertionFailure
            else Inr (sint (size_bytes rdt div arr_member_size_bytes rdt)))
         else Inr 0)
      else Inr (- 1))"

text \<open>
  An array descriptor as the loader would fill it in: built by the named-type
  constructor, then given its category, its span and its element size.
\<close>

definition array_descriptor :: "32 word \<Rightarrow> 32 word \<Rightarrow> ReadableDataType" where
  "array_descriptor span elem =
     (ReadableDataType_named True ''arr'')
       \<lparr> size_bytes := span, type := ARRAY, arr_member_size_bytes := elem \<rparr>"

subsection \<open>Rendering of a category\<close>

text \<open>
  The \<open>switch\<close> of \<open>operator<<\<close> for a descriptor, which picks the printed name of the
  category: one case per enumerator, and the \<open>default\<close> case for every other value.
\<close>

definition category_name :: "DataType \<Rightarrow> string" where
  "category_name t =
     (if t = VOID then ''void''
      else if t = BOOL then ''bool''
      else if t = CHAR_TYPE then ''char''
      else if t = INT_TYPE then ''int''
      else if t = FLOAT then ''float''
      else if t = STRUCT then ''struct''
      else if t = FUNC then ''function''
      else if t = ARRAY then ''array''
      else if t = UNION then ''union''
      else if t = ENUM then ''enum''
      else ''{unknown}'')"

section \<open>The function table\<close>

text \<open>
  \<open>func_hashtable\<close> is declared as \<open>std::map<unsigned, std::string>\<close>. A \<open>std::map\<close> is
  modelled by the sequence of its entries as an iteration from \<open>begin()\<close> to \<open>end()\<close>
  visits them, and its modifiers by functions on that sequence: \<open>insert\<close> keeps the
  entry of a key that is already present, assignment through \<open>operator[]\<close> replaces its
  value, \<open>erase\<close> removes it. Keys are compared by \<open>std::less<unsigned>\<close>, the order of
  32-bit words.
\<close>

type_synonym func_map = "(32 word \<times> string) list"

fun map_insert :: "32 word \<Rightarrow> string \<Rightarrow> func_map \<Rightarrow> func_map" where
  "map_insert k v [] = [(k, v)]"
| "map_insert k v (e # m) =
     (if fst e = k then e # m
      else if k < fst e then (k, v) # e # m
      else e # map_insert k v m)"

fun map_assign :: "32 word \<Rightarrow> string \<Rightarrow> func_map \<Rightarrow> func_map" where
  "map_assign k v [] = [(k, v)]"
| "map_assign k v (e # m) =
     (if fst e = k then (k, v) # m
      else if k < fst e then (k, v) # e # m
      else e # map_assign k v m)"

fun map_erase :: "32 word \<Rightarrow> func_map \<Rightarrow> func_map" where
  "map_erase k [] = []"
| "map_erase k (e # m) = (if fst e = k then m else e # map_erase k m)"

datatype map_op = Insert "32 word" string | Assign "32 word" string | Erase "32 word"

fun apply_op :: "func_map \<Rightarrow> map_op \<Rightarrow> func_map" where
  "apply_op m (Insert k v) = map_insert k v m"
| "apply_op m (Assign k v) = map_assign k v m"
| "apply_op m (Erase k) = map_erase k m"

text \<open>
  The table after a run of modifications, from the empty map it is at start-up.
\<close>

definition func_hashtable_after :: "map_op list \<Rightarrow> func_map" where
  "func_hashtable_after ops = foldl apply_op [] ops"

section \<open>Reading a member\<close>

text \<open>
  \<open>PrimitiveVariant\<close>, the typesafe union of the header, one constructor per alternative
  in the order of declaration. The payloads have the widths of the 64-bit host: a
  \<open>char\<close> is a byte, \<open>int\<close> and \<open>unsigned\<close> are 32-bit words, \<open>long int\<close>,
  \<open>long unsigned\<close> and a pointer are 64-bit words, and the three floating-point
  alternatives hold their bit patterns (32, 64 and 128 bits of storage).
\<close>

datatype PrimitiveVariant =
    PV_bool bool
  | PV_char "8 word"
  | PV_int "32 word"
  | PV_long_int "64 word"
  | PV_unsigned "32 word"
  | PV_long_unsigned "64 word"
  | PV_float "32 word"
  | PV_double "64 word"
  | PV_long_double "128 word"
  | PV_uint8_ptr "64 word"

type_synonym target_ulong = "64 word"

text \<open>
  Modelled from the spec: the two failures of a decode, for which the header has no
  type.
\<close>

datatype DecodeFailure = MemoryFault | UnsupportedType

text \<open>
  Modelled from the spec: the injected memory-access capability
  \<open>read_bytes(address, length)\<close>, which gives a byte sequence or faults (\<open>None\<close>),
  together with the number of times it has been invoked, as a counting mock records it.
  It stands for the \<open>CPUState\<close> argument of \<open>read_member\<close>.
\<close>

record memory_capability =
  read_bytes :: "target_ulong \<Rightarrow> nat \<Rightarrow> 8 word list option"
  invocations :: nat

definition invoke :: "memory_capability \<Rightarrow> target_ulong \<Rightarrow> nat
    \<Rightarrow> 8 word list option \<times> memory_capability" where
  "invoke cap addr len =
     (read_bytes cap addr len, cap \<lparr> invocations := Suc (invocations cap) \<rparr>)"

text \<open>
  Modelled from the spec: the value of a byte sequence as an unsigned integer, in
  little-endian or big-endian order. A word of that value read with \<open>sint\<close> is the two's
  complement integer.
\<close>

fun unsigned_le :: "8 word list \<Rightarrow> nat" where
  "unsigned_le [] = 0"
| "unsigned_le (b # bs) = unat b + 256 * unsigned_le bs"

definition decode_unsigned :: "bool \<Rightarrow> 8 word list \<Rightarrow> nat" where
  "decode_unsigned le bs = unsigned_le (if le then bs else rev bs)"

text \<open>
  Modelled from the spec: the directly convertible primitive kinds, which are bool,
  char, int and float.
\<close>

definition directly_convertible :: "DataType \<Rightarrow> bool" where
  "directly_convertible t = (t = BOOL \<or> t = CHAR_TYPE \<or> t = INT_TYPE \<or> t = FLOAT)"

text \<open>
  Modelled from the spec: the conversion of step 3 of the decoder, whose code is not in
  the header, into the alternatives of \<open>PrimitiveVariant\<close>. A bool is one byte, true
  when nonzero; a char is a single byte, which the one alternative \<open>char\<close> holds
  whatever its sign; an int of 4 bytes is an \<open>int\<close> or an \<open>unsigned\<close> and an int of 8
  bytes a \<open>long int\<close> or a \<open>long unsigned\<close>, by the sign and in the byte order of the
  descriptor; a float of 4 bytes is a \<open>float\<close>, of 8 bytes a \<open>double\<close> and of the
  extended width, 16 bytes, a \<open>long double\<close>. Every other combination of kind and width
  is \<open>UnsupportedType\<close>.
\<close>

definition convert :: "ReadableDataType \<Rightarrow> 8 word list \<Rightarrow> DecodeFailure + PrimitiveVariant" where
  "convert rdt bs =
     (if type rdt = BOOL then
        (case bs of [b] \<Rightarrow> Inr (PV_bool (b \<noteq> 0)) | _ \<Rightarrow> Inl UnsupportedType)
      else if type rdt = CHAR_TYPE then
        (case bs of [b] \<Rightarrow> Inr (PV_char b) | _ \<Rightarrow> Inl UnsupportedType)
      else if type rdt = INT_TYPE then
        (if length bs = 4 then
           (if is_signed rdt then Inr (PV_int (of_nat (decode_unsigned (is_le rdt) bs)))
            else Inr (PV_unsigned (of_nat (decode_unsigned (is_le rdt) bs))))
         else if length bs = 8 then
           (if is_signed rdt then Inr (PV_long_int (of_nat (decode_unsigned (is_le rdt) bs)))
            else Inr (PV_long_unsigned (of_nat (decode_unsigned (is_le rdt) bs))))
         else Inl UnsupportedType)
      else if type rdt = FLOAT then
        (if length bs = 4 then Inr (PV_float (of_nat (decode_unsigned (is_le rdt) bs)))
         else if length bs = 8 then Inr (PV_double (of_nat (decode_unsigned (is_le rdt) bs)))
         else if length bs = 16 then
           Inr (PV_long_double (of_nat (decode_unsigned (is_le rdt) bs)))
         else Inl UnsupportedType)
      else Inl UnsupportedType)"


text \<open>
  Modelled from the spec: the memory decoder, which is the body that \<open>read_member\<close>
  lacks in the header. The four steps of the decoder, in their order: an invalid
  descriptor is refused before any read; a pointer of either depth is read as
  \<open>size_bytes\<close> bytes and decoded as the address itself; a directly convertible kind is
  read and then converted; every other bare descriptor is refused without a read. The
  outcome is the value or the failure, and the capability with its invocation count.
\<close>

definition memory_decoder :: "memory_capability \<Rightarrow> target_ulong \<Rightarrow> ReadableDataType
    \<Rightarrow> (DecodeFailure + PrimitiveVariant) \<times> memory_capability" where
  "memory_decoder cap addr rdt =
     (if \<not> is_valid rdt then (Inl UnsupportedType, cap)
      else if is_ptr rdt \<or> is_double_ptr rdt then
        (case invoke cap addr (unat (size_bytes rdt)) of
           (None, cap') \<Rightarrow> (Inl MemoryFault, cap')
         | (Some bs, cap') \<Rightarrow>
             (Inr (PV_uint8_ptr (of_nat (decode_unsigned (is_le rdt) bs))), cap'))
      else if directly_convertible (type rdt) then
        (case invoke cap addr (unat (size_bytes rdt)) of
           (None, cap') \<Rightarrow> (Inl MemoryFault, cap')
         | (Some bs, cap') \<Rightarrow> (convert rdt bs, cap'))
      else (Inl UnsupportedType, cap))"

text \<open>
  \<open>read_member\<close> as the header declares it: from the state of the machine, an address
  and a descriptor to a \<open>std::pair<bool, PrimitiveVariant>\<close>, whose flag is true when
  both the read and the conversion succeeded, as the comment on the declaration says.
  Modelled from the spec: its body, which is the decoder above. A successful outcome
  is returned under the flag true. A failed outcome is returned under the flag false;
  the variant of such a pair cannot be empty, and what it holds is in neither the
  header nor the specification, so it is the argument \<open>failed\<close>, a value for each
  failure.
\<close>

definition read_member :: "(DecodeFailure \<Rightarrow> PrimitiveVariant) \<Rightarrow> memory_capability
    \<Rightarrow> target_ulong \<Rightarrow> ReadableDataType \<Rightarrow> (bool \<times> PrimitiveVariant) \<times> memory_capability" where
  "read_member failed cap addr rdt =
     (case memory_decoder cap addr rdt of
        (Inl f, cap') \<Rightarrow> ((False, failed f), cap')
      | (Inr v, cap') \<Rightarrow> ((True, v), cap'))"

subsection \<open>The scenario of struct Task\<close>

text \<open>
  The scenario of the specification. The members of \<open>Task\<close>: \<open>pid\<close>, a signed
  little-endian int of 4 bytes at offset 0, and \<open>next\<close>, a pointer of 8 bytes at offset
  8 to \<open>Task\<close>; a memory that holds 42 at the address of \<open>pid\<close> (4096) and 16 at the
  address of \<open>next\<close>, three bytes at 8192, and faults elsewhere; and a failed result
  that holds what a default-constructed variant does, the \<open>bool\<close> false.
\<close>

definition pid_member :: ReadableDataType where
  "pid_member =
     (ReadableDataType_named False ''pid'')
       \<lparr> size_bytes := 4, offset_bytes := 0, type := INT_TYPE, is_signed := True, is_valid := True \<rparr>"

definition next_member :: ReadableDataType where
  "next_member =
     (ReadableDataType_ptr False ''next'' ''Task'')
       \<lparr> size_bytes := 8, offset_bytes := 8, type := STRUCT, is_ptr := True, is_valid := True \<rparr>"

definition task_memory :: memory_capability where
  "task_memory =
     \<lparr> read_bytes = (\<lambda>addr len.
         if addr = 4096 \<and> len = 4 then Some [42, 0, 0, 0]
         else if addr = 4104 \<and> len = 8 then Some [16, 0, 0, 0, 0, 0, 0, 0]
         else if addr = 8192 \<and> len = 3 then Some [1, 2, 3]
         else None),
       invocations = 0 \<rparr>"

definition failed_default :: "DecodeFailure \<Rightarrow> PrimitiveVariant" where
  "failed_default f = PV_bool False"

section \<open>Auxiliary facts\<close>

lemmas DataType_defs =
  VOID_def BOOL_def CHAR_TYPE_def INT_TYPE_def FLOAT_def STRUCT_def FUNC_def ARRAY_def
  UNION_def ENUM_def

lemmas descriptor_defs =
  array_descriptor_def ReadableDataType_noargs_def ReadableDataType_named_def
  ReadableDataType_ptr_def

lemmas scenario_defs =
  task_memory_def pid_member_def next_member_def failed_default_def descriptor_defs

lemma sint_small: "unat (w :: 32 word) < 2 ^ 31 \<Longrightarrow> sint w = int (unat w)"
proof -
  assume a: "unat w < 2 ^ 31"
  have "sint w = signed_take_bit 31 (uint w)"
    by (simp add: sint_uint)
  also have "\<dots> = uint w"
  proof -
    have "(0::int) \<le> uint w" by simp
    moreover have "- (2 ^ 31) \<le> (0::int)" by simp
    ultimately have lo: "- (2 ^ 31) \<le> uint w" by (rule order_trans [rotated])
    have hi: "uint w < 2 ^ 31" using a
      by (metis of_nat_less_iff of_nat_numeral of_nat_power uint_nat)
    show ?thesis by (rule signed_take_bit_int_eq_self [OF lo hi])
  qed
  finally show ?thesis by (simp only: uint_nat)
qed

text \<open>
  Divisibility of the sizes as numbers, in terms of the test the code makes on words.
\<close>

lemma unat_dvd_iff:
  "unat (b :: 32 word) dvd unat (a :: 32 word) \<longleftrightarrow> (b \<noteq> 0 \<and> a mod b = 0) \<or> a = 0"
  by (metis (no_types, lifting) dvd_0_right dvd_eq_mod_eq_0 dvd_pos_nat
    unat_gt_0 unat_mod_distrib unsigned_0)

section \<open>Array size of a descriptor\<close>

text \<open>
  C1, as amended. For an array descriptor whose \<open>size_bytes\<close> is nonzero and an exact
  multiple of \<open>arr_member_size_bytes\<close>, and whose quotient fits the return type \<open>int\<close>
  (it is below \<open>2 ^ 31\<close>), \<open>get_arr_size\<close> returns \<open>size_bytes / arr_member_size_bytes\<close>;
  for an array descriptor whose \<open>size_bytes\<close> is 0 it returns 0.
\<close>

theorem get_arr_size_array:
  "type rdt = ARRAY \<Longrightarrow>
     (size_bytes rdt \<noteq> 0
        \<and> unat (arr_member_size_bytes rdt) dvd unat (size_bytes rdt)
        \<and> unat (size_bytes rdt) div unat (arr_member_size_bytes rdt) < 2 ^ 31
      \<longrightarrow> get_arr_size rdt
            = Inr (int (unat (size_bytes rdt) div unat (arr_member_size_bytes rdt))))
   \<and> (size_bytes rdt = 0 \<longrightarrow> get_arr_size rdt = Inr 0)"
proof (intro conjI impI)
  assume arr: "type rdt = ARRAY"
  assume h: "size_bytes rdt \<noteq> 0
        \<and> unat (arr_member_size_bytes rdt) dvd unat (size_bytes rdt)
        \<and> unat (size_bytes rdt) div unat (arr_member_size_bytes rdt) < 2 ^ 31"
  from h have nz: "arr_member_size_bytes rdt \<noteq> 0"
    and m: "size_bytes rdt mod arr_member_size_bytes rdt = 0"
    using unat_dvd_iff [of "arr_member_size_bytes rdt" "size_bytes rdt"] by auto
  have q: "unat (size_bytes rdt div arr_member_size_bytes rdt)
             = unat (size_bytes rdt) div unat (arr_member_size_bytes rdt)"
    by (simp add: unat_div)
  with h have "unat (size_bytes rdt div arr_member_size_bytes rdt) < 2 ^ 31" by simp
  then have "sint (size_bytes rdt div arr_member_size_bytes rdt)
               = int (unat (size_bytes rdt) div unat (arr_member_size_bytes rdt))"
    using sint_small q by metis
  with arr h nz m show "get_arr_size rdt
            = Inr (int (unat (size_bytes rdt) div unat (arr_member_size_bytes rdt)))"
    by (simp add: get_arr_size_def)
next
  assume "type rdt = ARRAY" "size_bytes rdt = 0"
  then show "get_arr_size rdt = Inr 0" by (simp add: get_arr_size_def)
qed

text \<open>
  The examples of the specification: 40 bytes of 10-byte elements are 4 elements, and
  a span of 0 is reported as 0 elements.
\<close>

theorem get_arr_size_array_witness:
  "type (array_descriptor 40 10) = ARRAY
   \<and> size_bytes (array_descriptor 40 10) \<noteq> 0
   \<and> unat (arr_member_size_bytes (array_descriptor 40 10))
        dvd unat (size_bytes (array_descriptor 40 10))
   \<and> unat (size_bytes (array_descriptor 40 10))
        div unat (arr_member_size_bytes (array_descriptor 40 10)) < 2 ^ 31
   \<and> get_arr_size (array_descriptor 40 10) = Inr 4
   \<and> type (array_descriptor 0 10) = ARRAY
   \<and> size_bytes (array_descriptor 0 10) = 0
   \<and> get_arr_size (array_descriptor 0 10) = Inr 0"
  using get_arr_size_array [of "array_descriptor 40 10"]
    get_arr_size_array [of "array_descriptor 0 10"]
  by (simp add: descriptor_defs)

text \<open>
  C1 as stated fails where the quotient does not fit an \<open>int\<close>: an array of \<open>2 ^ 31\<close>
  one-byte elements has a nonzero span that is a multiple of the element size, its
  quotient is 2147483648, and \<open>get_arr_size\<close> returns -2147483648.
\<close>

theorem get_arr_size_quotient_counterexample:
  "type (array_descriptor 2147483648 1) = ARRAY
   \<and> size_bytes (array_descriptor 2147483648 1) \<noteq> 0
   \<and> unat (arr_member_size_bytes (array_descriptor 2147483648 1))
        dvd unat (size_bytes (array_descriptor 2147483648 1))
   \<and> unat (size_bytes (array_descriptor 2147483648 1))
        div unat (arr_member_size_bytes (array_descriptor 2147483648 1)) = 2147483648
   \<and> get_arr_size (array_descriptor 2147483648 1) = Inr (- 2147483648)"
  by (simp add: get_arr_size_def descriptor_defs)

text \<open>
  C2, as amended. For an array descriptor with nonzero \<open>size_bytes\<close> and nonzero
  \<open>arr_member_size_bytes\<close> whose \<open>size_bytes\<close> is not a multiple of the element size,
  \<open>get_arr_size\<close> is an assertion failure; and when \<open>size_bytes\<close> is zero or a multiple
  of the element size, \<open>get_arr_size\<close> is not an assertion failure.
\<close>

theorem get_arr_size_assertion:
  "(type rdt = ARRAY \<and> size_bytes rdt \<noteq> 0 \<and> arr_member_size_bytes rdt \<noteq> 0
      \<and> \<not> unat (arr_member_size_bytes rdt) dvd unat (size_bytes rdt)
     \<longrightarrow> get_arr_size rdt = Inl AssertionFailure)
   \<and> (size_bytes rdt = 0 \<or> unat (arr_member_size_bytes rdt) dvd unat (size_bytes rdt)
     \<longrightarrow> get_arr_size rdt \<noteq> Inl AssertionFailure)"
  using unat_dvd_iff [of "arr_member_size_bytes rdt" "size_bytes rdt"]
  by (auto simp add: get_arr_size_def)

text \<open>
  The example of the specification: a span of 41 bytes of 10-byte elements is an
  assertion failure; a span of 30 bytes is not.
\<close>

theorem get_arr_size_assertion_witness:
  "type (array_descriptor 41 10) = ARRAY
   \<and> size_bytes (array_descriptor 41 10) \<noteq> 0
   \<and> arr_member_size_bytes (array_descriptor 41 10) \<noteq> 0
   \<and> \<not> unat (arr_member_size_bytes (array_descriptor 41 10))
          dvd unat (size_bytes (array_descriptor 41 10))
   \<and> get_arr_size (array_descriptor 41 10) = Inl AssertionFailure
   \<and> unat (arr_member_size_bytes (array_descriptor 30 10))
        dvd unat (size_bytes (array_descriptor 30 10))
   \<and> get_arr_size (array_descriptor 30 10) \<noteq> Inl AssertionFailure"
  using get_arr_size_assertion [of "array_descriptor 41 10"]
    get_arr_size_assertion [of "array_descriptor 30 10"]
  by (simp add: descriptor_defs)

text \<open>
  C2 as stated fails at an element size of 0, the value the constructors give it: a
  span of 5 bytes is nonzero and not a multiple of 0, and \<open>get_arr_size\<close> divides by
  zero before the assertion can compare anything.
\<close>

theorem get_arr_size_assertion_counterexample:
  "type (array_descriptor 5 0) = ARRAY
   \<and> size_bytes (array_descriptor 5 0) \<noteq> 0
   \<and> \<not> unat (arr_member_size_bytes (array_descriptor 5 0))
          dvd unat (size_bytes (array_descriptor 5 0))
   \<and> get_arr_size (array_descriptor 5 0) = Inl DivisionByZero
   \<and> get_arr_size (array_descriptor 5 0) \<noteq> Inl AssertionFailure"
  by (simp add: get_arr_size_def descriptor_defs)

text \<open>
  C6. For an array descriptor with nonzero \<open>size_bytes\<close>, \<open>get_arr_size\<close> divides by
  zero exactly when \<open>arr_member_size_bytes\<close> is zero: nothing guards the remainder and
  the quotient, so a nonzero element size is a precondition of the call.
\<close>

theorem get_arr_size_zero_element_size:
  "type rdt = ARRAY \<Longrightarrow> size_bytes rdt \<noteq> 0 \<Longrightarrow>
     (get_arr_size rdt = Inl DivisionByZero \<longleftrightarrow> arr_member_size_bytes rdt = 0)"
  by (simp add: get_arr_size_def)

theorem get_arr_size_zero_element_size_witness:
  "type (array_descriptor 8 0) = ARRAY \<and> size_bytes (array_descriptor 8 0) \<noteq> 0
   \<and> arr_member_size_bytes (array_descriptor 8 0) = 0
   \<and> get_arr_size (array_descriptor 8 0) = Inl DivisionByZero
   \<and> type (array_descriptor 8 4) = ARRAY \<and> size_bytes (array_descriptor 8 4) \<noteq> 0
   \<and> arr_member_size_bytes (array_descriptor 8 4) \<noteq> 0
   \<and> get_arr_size (array_descriptor 8 4) \<noteq> Inl DivisionByZero"
  using get_arr_size_zero_element_size [of "array_descriptor 8 0"]
    get_arr_size_zero_element_size [of "array_descriptor 8 4"]
  by (simp add: descriptor_defs)

text \<open>
  C10. A descriptor whose category is not \<open>ARRAY\<close> has array size \<open>-1\<close>, whatever its
  \<open>size_bytes\<close> and \<open>arr_member_size_bytes\<close> are.
\<close>

theorem get_arr_size_not_array:
  "type rdt \<noteq> ARRAY \<Longrightarrow> get_arr_size rdt = Inr (- 1)"
  by (simp add: get_arr_size_def)

theorem get_arr_size_not_array_witness:
  "type ((array_descriptor 41 0) \<lparr> type := STRUCT \<rparr>) \<noteq> ARRAY
   \<and> get_arr_size ((array_descriptor 41 0) \<lparr> type := STRUCT \<rparr>) = Inr (- 1)"
  using get_arr_size_not_array [of "(array_descriptor 41 0) \<lparr> type := STRUCT \<rparr>"]
  by (simp add: DataType_defs)

section \<open>Construction of a descriptor\<close>

text \<open>
  C5. What the constructors do with \<open>is_valid\<close>: none of the three gives it a value,
  so the flag of a freshly constructed descriptor is whatever its storage held, and two
  constructions with the same arguments can differ in it.
\<close>

theorem constructors_leave_is_valid_indeterminate:
  "is_valid (ReadableDataType_ptr indet ptr_name dst_name) = indet
   \<and> is_valid (ReadableDataType_named indet nm) = indet
   \<and> is_valid (ReadableDataType_noargs indet) = indet
   \<and> is_valid (ReadableDataType_noargs True) \<noteq> is_valid (ReadableDataType_noargs False)"
  by (simp add: descriptor_defs)

section \<open>The categories\<close>

text \<open>
  The sixteen values of the enumeration.
\<close>

lemma DataType_cases:
  "(t :: DataType) \<in> set (map of_nat [0 ..< 16])"
proof -
  have "unat t < 2 ^ LENGTH(4)" by (rule unsigned_less)
  then have "unat t < 16" by simp
  then have "unat t \<in> set [0 ..< 16]" by simp
  then have "of_nat (unat t) \<in> (of_nat :: nat \<Rightarrow> DataType) ` set [0 ..< 16]" by (rule imageI)
  then show ?thesis by simp
qed

lemma upt16: "[0 ..< 16] = [0,1,2,3,4,5,6,7,8,9,10,11,12,13,14,15::nat]"
  by (simp add: upt_rec)

lemma DataType_value:
  "(t :: DataType) \<in> {0, 1, 2, 3, 4, 5, 6, 7, 8, 9, 10, 11, 12, 13, 14, 15}"
  using DataType_cases [of t] unfolding upt16 by simp

text \<open>
  C7, as amended. The enumeration declares exactly ten tags, void, bool, char, int,
  float, struct, function, array, union and enum: they are the values 0 to 9, each
  rendered under its own name, and the category of a descriptor is one of them exactly
  when its value is below 10. The set is not closed: the category of a descriptor can
  also be one of the values 10 to 15, which are no tag and are rendered as \<open>{unknown}\<close>.
\<close>

theorem DataType_tags:
  "map unat [VOID, BOOL, CHAR_TYPE, INT_TYPE, FLOAT, STRUCT, FUNC, ARRAY, UNION, ENUM]
     = [0, 1, 2, 3, 4, 5, 6, 7, 8, 9]
   \<and> map category_name
         [VOID, BOOL, CHAR_TYPE, INT_TYPE, FLOAT, STRUCT, FUNC, ARRAY, UNION, ENUM]
       = [''void'', ''bool'', ''char'', ''int'', ''float'', ''struct'', ''function'',
          ''array'', ''union'', ''enum'']
   \<and> (type rdt \<in> {VOID, BOOL, CHAR_TYPE, INT_TYPE, FLOAT, STRUCT, FUNC, ARRAY, UNION, ENUM}
        \<longleftrightarrow> unat (type rdt) < 10)
   \<and> (category_name (type rdt) = ''{unknown}'' \<longleftrightarrow> 10 \<le> unat (type rdt))
   \<and> unat (type rdt) < 16"
proof -
  have tags: "map unat [VOID, BOOL, CHAR_TYPE, INT_TYPE, FLOAT, STRUCT, FUNC, ARRAY, UNION, ENUM]
     = [0, 1, 2, 3, 4, 5, 6, 7, 8, 9]"
    by (simp add: DataType_defs)
  have names: "map category_name
         [VOID, BOOL, CHAR_TYPE, INT_TYPE, FLOAT, STRUCT, FUNC, ARRAY, UNION, ENUM]
       = [''void'', ''bool'', ''char'', ''int'', ''float'', ''struct'', ''function'',
          ''array'', ''union'', ''enum'']"
    by (simp add: category_name_def DataType_defs)
  have named: "t \<in> {VOID, BOOL, CHAR_TYPE, INT_TYPE, FLOAT, STRUCT, FUNC, ARRAY, UNION, ENUM}
        \<longleftrightarrow> unat t < 10" for t :: DataType
    using DataType_value [of t] by (auto simp add: DataType_defs)
  have unknown: "category_name t = ''{unknown}'' \<longleftrightarrow> 10 \<le> unat t" for t :: DataType
    using DataType_value [of t] by (auto simp add: category_name_def DataType_defs)
  have "unat (type rdt) < 2 ^ LENGTH(4)" by (rule unsigned_less)
  then have "unat (type rdt) < 16" by simp
  with tags names named unknown show ?thesis by blast
qed

theorem DataType_tags_witness:
  "unat (type (array_descriptor 40 10)) < 10
   \<and> type (array_descriptor 40 10)
       \<in> {VOID, BOOL, CHAR_TYPE, INT_TYPE, FLOAT, STRUCT, FUNC, ARRAY, UNION, ENUM}
   \<and> category_name (type (array_descriptor 40 10)) \<noteq> ''{unknown}''
   \<and> 10 \<le> unat (type ((array_descriptor 40 10) \<lparr> type := 12 \<rparr>))
   \<and> type ((array_descriptor 40 10) \<lparr> type := 12 \<rparr>)
       \<notin> {VOID, BOOL, CHAR_TYPE, INT_TYPE, FLOAT, STRUCT, FUNC, ARRAY, UNION, ENUM}
   \<and> category_name (type ((array_descriptor 40 10) \<lparr> type := 12 \<rparr>)) = ''{unknown}''"
  using DataType_tags [of "array_descriptor 40 10"]
    DataType_tags [of "(array_descriptor 40 10) \<lparr> type := 12 \<rparr>"]
  by (simp add: descriptor_defs DataType_defs)

text \<open>
  C7 as stated fails: a descriptor whose category is the value 12, which a \<open>DataType\<close>
  can hold, has a category outside the ten tags, and \<open>operator<<\<close> takes its \<open>default\<close>
  branch for it.
\<close>

theorem DataType_closed_counterexample:
  "type ((ReadableDataType_noargs False) \<lparr> type := 12 \<rparr>)
     \<notin> {VOID, BOOL, CHAR_TYPE, INT_TYPE, FLOAT, STRUCT, FUNC, ARRAY, UNION, ENUM}
   \<and> category_name (type ((ReadableDataType_noargs False) \<lparr> type := 12 \<rparr>)) = ''{unknown}''"
  by (simp add: category_name_def DataType_defs)

section \<open>Keys of the function table\<close>

lemma keys_map_insert: "fst ` set (map_insert k v m) = insert k (fst ` set m)"
  by (induction m) auto

lemma keys_map_assign: "fst ` set (map_assign k v m) = insert k (fst ` set m)"
  by (induction m) auto

lemma keys_map_erase: "fst ` set (map_erase k m) \<subseteq> fst ` set m"
  by (induction m) auto

lemma ascending_map_insert:
  "sorted_wrt (<) (map fst m) \<Longrightarrow> sorted_wrt (<) (map fst (map_insert k v m))"
proof (induction m)
  case Nil
  then show ?case by simp
next
  case (Cons e m)
  then have rest: "sorted_wrt (<) (map fst (map_insert k v m))" by simp
  from Cons.prems have above: "\<forall>x \<in> fst ` set m. fst e < x" by auto
  show ?case
  proof (cases "fst e = k \<or> k < fst e")
    case True
    with Cons.prems show ?thesis by auto
  next
    case False
    then have "fst e < k" by auto
    with above have "\<forall>x \<in> fst ` set (map_insert k v m). fst e < x"
      unfolding keys_map_insert by blast
    with False rest show ?thesis by auto
  qed
qed

lemma ascending_map_assign:
  "sorted_wrt (<) (map fst m) \<Longrightarrow> sorted_wrt (<) (map fst (map_assign k v m))"
proof (induction m)
  case Nil
  then show ?case by simp
next
  case (Cons e m)
  then have rest: "sorted_wrt (<) (map fst (map_assign k v m))" by simp
  from Cons.prems have above: "\<forall>x \<in> fst ` set m. fst e < x" by auto
  show ?case
  proof (cases "fst e = k \<or> k < fst e")
    case True
    with Cons.prems show ?thesis by auto
  next
    case False
    then have "fst e < k" by auto
    with above have "\<forall>x \<in> fst ` set (map_assign k v m). fst e < x"
      unfolding keys_map_assign by blast
    with False rest show ?thesis by auto
  qed
qed

lemma ascending_map_erase:
  "sorted_wrt (<) (map fst m) \<Longrightarrow> sorted_wrt (<) (map fst (map_erase k m))"
proof (induction m)
  case Nil
  then show ?case by simp
next
  case (Cons e m)
  then have rest: "sorted_wrt (<) (map fst (map_erase k m))" by simp
  from Cons.prems have "\<forall>x \<in> fst ` set m. fst e < x" by auto
  with keys_map_erase [of k m] have "\<forall>x \<in> fst ` set (map_erase k m). fst e < x" by blast
  with Cons.prems rest show ?case by auto
qed

lemma ascending_apply_op:
  "sorted_wrt (<) (map fst m) \<Longrightarrow> sorted_wrt (<) (map fst (apply_op m op))"
  by (cases op) (simp_all add: ascending_map_insert ascending_map_assign ascending_map_erase)

lemma ascending_foldl_apply_op:
  "sorted_wrt (<) (map fst m) \<Longrightarrow> sorted_wrt (<) (map fst (foldl apply_op m ops))"
  by (induction ops arbitrary: m) (simp_all add: ascending_apply_op)

lemma ascending_func_hashtable: "sorted_wrt (<) (map fst (func_hashtable_after ops))"
  by (simp add: func_hashtable_after_def ascending_foldl_apply_op)

lemma ascending_distinct: "sorted_wrt (<) (ks :: 32 word list) \<Longrightarrow> distinct ks"
  by (induction ks) auto

text \<open>
  With unique keys, the entries at or below an address have exactly one entry of
  greatest key, as soon as there is one at all.
\<close>

lemma greatest_entry_at_or_below:
  assumes d: "distinct (map fst (m :: func_map))" and ex: "\<exists>e \<in> set m. fst e \<le> a"
  shows "\<exists>!e. e \<in> set m \<and> fst e \<le> a \<and> (\<forall>e' \<in> set m. fst e' \<le> a \<longrightarrow> fst e' \<le> fst e)"
proof -
  let ?S = "{k \<in> fst ` set m. k \<le> a}"
  have fin: "finite ?S" by simp
  from ex have ne: "?S \<noteq> {}" by auto
  have "Max ?S \<in> ?S" using fin ne by (rule Max_in)
  then obtain e where e: "e \<in> set m" "fst e = Max ?S" "fst e \<le> a" by auto
  have top: "fst e' \<le> fst e" if "e' \<in> set m" "fst e' \<le> a" for e'
  proof -
    from that have "fst e' \<in> ?S" by auto
    with fin have "fst e' \<le> Max ?S" by (rule Max_ge)
    with e show ?thesis by simp
  qed
  show ?thesis
  proof (rule ex1I [of _ e])
    from e top
    show "e \<in> set m \<and> fst e \<le> a \<and> (\<forall>e' \<in> set m. fst e' \<le> a \<longrightarrow> fst e' \<le> fst e)"
      by blast
  next
    fix x
    assume x: "x \<in> set m \<and> fst x \<le> a \<and> (\<forall>e' \<in> set m. fst e' \<le> a \<longrightarrow> fst e' \<le> fst x)"
    with e top have "fst x = fst e" by (meson order_antisym)
    moreover from d have "inj_on fst (set m)" by (simp add: distinct_map)
    ultimately show "x = e" using x e by (blast dest: inj_onD)
  qed
qed

text \<open>
  C8. After any run of insertions, assignments and erasures, the entries of the
  function table are in strictly ascending order of address, so no address occurs
  twice; and for every address with some entry at or below it, exactly one entry is the
  nearest at or below.
\<close>

theorem func_hashtable_keys_ordered:
  "sorted_wrt (<) (map fst (func_hashtable_after ops))
   \<and> distinct (map fst (func_hashtable_after ops))
   \<and> ((\<exists>e \<in> set (func_hashtable_after ops). fst e \<le> a) \<longrightarrow>
        (\<exists>!e. e \<in> set (func_hashtable_after ops) \<and> fst e \<le> a
              \<and> (\<forall>e' \<in> set (func_hashtable_after ops). fst e' \<le> a \<longrightarrow> fst e' \<le> fst e)))"
  using ascending_func_hashtable [of ops] ascending_distinct greatest_entry_at_or_below
  by blast

text \<open>
  Two functions entered out of order, one renamed by assignment and one inserted a
  second time: the table holds them by ascending address, and address 6000 has its one
  nearest entry below.
\<close>

theorem func_hashtable_keys_ordered_witness:
  "(\<exists>e \<in> set (func_hashtable_after
        [Insert 8192 ''g'', Insert 4096 ''f'', Assign 8192 ''h'', Insert 4096 ''e'']).
       fst e \<le> 6000)
   \<and> (\<exists>!e. e \<in> set (func_hashtable_after
              [Insert 8192 ''g'', Insert 4096 ''f'', Assign 8192 ''h'', Insert 4096 ''e''])
         \<and> fst e \<le> 6000
         \<and> (\<forall>e' \<in> set (func_hashtable_after
                [Insert 8192 ''g'', Insert 4096 ''f'', Assign 8192 ''h'', Insert 4096 ''e'']).
               fst e' \<le> 6000 \<longrightarrow> fst e' \<le> fst e))
   \<and> func_hashtable_after
         [Insert 8192 ''g'', Insert 4096 ''f'', Assign 8192 ''h'', Insert 4096 ''e'']
       = [(4096, ''f''), (8192, ''h'')]"
proof -
  let ?ops = "[Insert 8192 ''g'', Insert 4096 ''f'', Assign 8192 ''h'', Insert 4096 ''e'']"
  have m: "func_hashtable_after ?ops = [(4096, ''f''), (8192, ''h'')]"
    by (simp add: func_hashtable_after_def)
  have h: "\<exists>e \<in> set (func_hashtable_after ?ops). fst e \<le> 6000"
    unfolding m by simp
  from func_hashtable_keys_ordered [of ?ops 6000] h
  have "\<exists>!e. e \<in> set (func_hashtable_after ?ops) \<and> fst e \<le> 6000
          \<and> (\<forall>e' \<in> set (func_hashtable_after ?ops). fst e' \<le> 6000 \<longrightarrow> fst e' \<le> fst e)"
    by blast
  with h m show ?thesis by simp
qed

section \<open>Failures of read_member\<close>




lemma read_member_one_read:
  "is_valid rdt \<Longrightarrow> is_ptr rdt \<or> is_double_ptr rdt \<or> directly_convertible (type rdt) \<Longrightarrow>
     invocations (snd (read_member failed cap addr rdt)) = Suc (invocations cap)"
  by (cases "read_bytes cap addr (unat (size_bytes rdt))";
      cases "convert rdt (the (read_bytes cap addr (unat (size_bytes rdt))))")
    (auto simp add: read_member_def memory_decoder_def invoke_def)

text \<open>
  The scenario of the specification: the four bytes \<open>2A 00 00 00\<close> at the address of
  \<open>pid\<close> are read as the \<open>int\<close> 42.
\<close>

lemma read_member_task_pid:
  "fst (read_member failed task_memory 4096 pid_member) = (True, PV_int 42)"
  by (simp add: read_member_def memory_decoder_def invoke_def convert_def decode_unsigned_def
      directly_convertible_def scenario_defs DataType_defs)

text \<open>
  C4. For a descriptor with \<open>is_valid\<close> false, and every address and memory capability,
  the decoder fails with \<open>UnsupportedType\<close>, \<open>read_member\<close> returns it under the flag
  false, and the capability comes back as it went in, its invocation count included: no
  read is made.
\<close>

theorem read_member_invalid:
  "\<not> is_valid rdt \<Longrightarrow>
     memory_decoder cap addr rdt = (Inl UnsupportedType, cap)
     \<and> fst (read_member failed cap addr rdt) = (False, failed UnsupportedType)
     \<and> invocations (snd (read_member failed cap addr rdt)) = invocations cap
     \<and> snd (read_member failed cap addr rdt) = cap"
  by (simp add: read_member_def memory_decoder_def)

theorem read_member_invalid_witness:
  "\<not> is_valid (pid_member \<lparr> is_valid := False \<rparr>)
   \<and> memory_decoder task_memory 4096 (pid_member \<lparr> is_valid := False \<rparr>)
       = (Inl UnsupportedType, task_memory)
   \<and> fst (read_member failed_default task_memory 4096 (pid_member \<lparr> is_valid := False \<rparr>))
       = (False, PV_bool False)
   \<and> invocations
        (snd (read_member failed_default task_memory 4096 (pid_member \<lparr> is_valid := False \<rparr>)))
       = 0"
  using read_member_invalid
    [of "pid_member \<lparr> is_valid := False \<rparr>" task_memory 4096 failed_default]
  by (simp add: scenario_defs)



text \<open>
  An invalid descriptor and a valid bare descriptor of an unsupported kind return the
  same pair, whatever a failed pair holds.
\<close>

lemma invalid_same_as_unsupported:
  "\<not> is_valid d \<Longrightarrow>
   is_valid d' \<Longrightarrow> \<not> is_ptr d' \<Longrightarrow> \<not> is_double_ptr d' \<Longrightarrow> \<not> directly_convertible (type d') \<Longrightarrow>
     read_member failed cap addr d = read_member failed cap addr' d'"
  by (simp add: read_member_def memory_decoder_def)


end
